theory Spec2Isabelle
  imports Main "HOL-Library.AList" "HOL-Library.Sublist" "HOL-Library.Word"
begin

unbundle bit_operations_syntax

section \<open>Text, numbers and the external codec\<close>

text \<open>
  Text is a \<^typ>\<open>string\<close> of bytes, the UTF-8 form in which the program hashes, compresses
  and stores it. JavaScript's \<open>.length\<close> of a string counts UTF-16 code units, not bytes:
  \<open>jsLength\<close> counts them for valid UTF-8 (one unit for each leading byte, two for the
  leading byte of a four-byte sequence, none for a continuation byte). A \<open>Buffer\<close>'s
  \<open>.length\<close> counts bytes and is \<^const>\<open>length\<close>.
\<close>

abbreviation (input) NUL :: char where "NUL \<equiv> CHR 0x00"
abbreviation (input) LF :: char where "LF \<equiv> CHR 0x0A"
abbreviation (input) SP :: char where "SP \<equiv> CHR 0x20"

definition codeUnits :: "char \<Rightarrow> nat" where
  "codeUnits ch =
     (let b = (of_char ch :: int)
      in if b < 128 then 1 else if b < 192 then 0 else if b < 240 then 1 else 2)"

definition jsLength :: "string \<Rightarrow> nat" where
  "jsLength str = sum_list (map codeUnits str)"


text \<open>Template-literal rendering of a non-negative integer: decimal, no leading zeros.\<close>

definition digitChar :: "nat \<Rightarrow> char" where
  "digitChar d = ''0123456789'' ! d"

fun showNat :: "nat \<Rightarrow> string" where
  "showNat n = (if n < 10 then [digitChar n] else showNat (n div 10) @ [digitChar (n mod 10)])"

declare showNat.simps [simp del]

text \<open>\<open>String.prototype.split\<close> with a one-character separator.\<close>

fun splitOn :: "char \<Rightarrow> string \<Rightarrow> string list" where
  "splitOn sep [] = [[]]"
| "splitOn sep (ch # rest) =
     (if ch = sep then [] # splitOn sep rest
      else (case splitOn sep rest of
              [] \<Rightarrow> [[ch]]
            | part # parts \<Rightarrow> (ch # part) # parts))"

text \<open>Array indexing that yields \<open>undefined\<close> (here \<open>None\<close>) out of range.\<close>

fun nthOpt :: "'a list \<Rightarrow> nat \<Rightarrow> 'a option" where
  "nthOpt [] i = None"
| "nthOpt (x # xs) 0 = Some x"
| "nthOpt (x # xs) (Suc i) = nthOpt xs i"

text \<open>
  \<open>String.prototype.trim\<close> on the ASCII white space (tab, line feed, vertical tab, form
  feed, carriage return, space); the Unicode spaces beyond ASCII are not represented.
\<close>

definition isSpace :: "char \<Rightarrow> bool" where
  "isSpace ch = (ch \<in> set [CHR 0x09, LF, CHR 0x0B, CHR 0x0C, CHR 0x0D, SP])"

definition trim :: "string \<Rightarrow> string" where
  "trim str = rev (dropWhile isSpace (rev (dropWhile isSpace str)))"

text \<open>
  The SHA-1 digest and zlib are libraries outside the repository: they are parameters of
  the model. A digest is 160 bits; \<open>digest("hex")\<close> renders it as 40 lower-case
  hexadecimal digits, most significant first.
\<close>

record codec =
  sha1 :: "string \<Rightarrow> 160 word"
  deflate :: "string \<Rightarrow> string"
  inflate :: "string \<Rightarrow> string option"

definition hexChar :: "nat \<Rightarrow> char" where
  "hexChar d = ''0123456789abcdef'' ! d"

definition hexDigest :: "160 word \<Rightarrow> string" where
  "hexDigest w = map (\<lambda>i. hexChar (unat (drop_bit (4 * i) w AND 15))) (rev [0..<40])"

definition createShaHash :: "codec \<Rightarrow> string \<Rightarrow> string" where
  "createShaHash c uncompressedData = hexDigest (sha1 c uncompressedData)"

section \<open>Repository state\<close>

text \<open>
  A node of the working directory as \<open>fs.statSync\<close> sees it (symbolic links are followed):
  a regular file with its owner-execute bit and its text, a directory with its entries, or
  something that is neither (socket, FIFO, device). The entries of a directory are listed in
  the order in which the tree builder finishes them, which is the order in which it appends
  them to the tree body; that order is decided by the directory listing and by the
  completion of the asynchronous compressions, so it is an input here.
\<close>

datatype node =
    File bool string
  | Directory "(string \<times> node) list"
  | Special

text \<open>
  The two object partitions are association lists from the hexadecimal hash to the stored
  (compressed) bytes: the file \<open>objects/<xx>/<rest>\<close> is the entry with key \<open><xx><rest>\<close>.
  \<open>metaFiles\<close> holds the other regular files of \<open>.customGit\<close> by their path relative to it,
  \<open>HEAD\<close> and \<open>refs/heads/<branch>\<close>; paths are compared as written. \<open>worktree\<close> lists the
  entries of the working directory other than \<open>.customGit\<close> itself.
\<close>

type_synonym store = "(string \<times> string) list"

record repo =
  worktree :: "(string \<times> node) list"
  metaFiles :: store
  objects :: store
  staging :: store

datatype error =
    NothingToCommit
  | BranchExists
  | BranchNotFound
  | UnresolvableHead
  | ENOENT
  | EISDIR
  | TypeError
  | InflateError
  | RepoDirNotIgnored

section \<open>References\<close>

datatype headRef =
    BranchRef "string option"
  | CommitRef string

text \<open>
  \<open>getHeadReference\<close>: the trimmed content of HEAD is symbolic when it starts with
  \<open>ref:\<close>, and then names the second space-separated word (\<open>undefined\<close> when there is
  none); otherwise it is a commit hash. Reading a missing HEAD throws.
\<close>

definition parseHead :: "string \<Rightarrow> headRef" where
  "parseHead content =
     (let headContent = trim content
      in if prefix ''ref:'' headContent
         then BranchRef (nthOpt (splitOn SP headContent) 1)
         else CommitRef headContent)"

definition getHeadReference :: "repo \<Rightarrow> error + headRef" where
  "getHeadReference s =
     (case map_of (metaFiles s) ''HEAD'' of
        None \<Rightarrow> Inl ENOENT
      | Some content \<Rightarrow> Inr (parseHead content))"

definition writeMeta :: "string \<Rightarrow> string \<Rightarrow> repo \<Rightarrow> repo" where
  "writeMeta path content s = s\<lparr>metaFiles := AList.update path content (metaFiles s)\<rparr>"


definition updateHeadToCommit :: "string \<Rightarrow> repo \<Rightarrow> repo" where
  "updateHeadToCommit commitHash s = writeMeta ''HEAD'' (commitHash @ [LF]) s"



section \<open>Object store\<close>

definition writeObject :: "string \<Rightarrow> string \<Rightarrow> repo \<Rightarrow> string \<times> repo" where
  "writeObject hash buffer s = (hash, s\<lparr>objects := AList.update hash buffer (objects s)\<rparr>)"

definition stageTreeObject :: "string \<Rightarrow> string \<Rightarrow> repo \<Rightarrow> string \<times> repo" where
  "stageTreeObject hash buffer s = (hash, s\<lparr>staging := AList.update hash buffer (staging s)\<rparr>)"

text \<open>
  \<open>getGitMode\<close> on what \<open>statSync\<close> reports: a directory, or else the owner-execute bit
  (\<open>statSync\<close> never reports a symbolic link).
\<close>

definition getGitMode :: "bool \<Rightarrow> bool \<Rightarrow> string" where
  "getGitMode isDirectory executable =
     (if isDirectory then ''40000'' else if executable then ''100755'' else ''100644'')"

text \<open>
  \<open>writeBlobObject\<close>: the header carries the byte length of the file and is followed by
  its text; the object goes through \<open>writeObject\<close>, into the objects directory.
\<close>

definition uncompressedBlob :: "string \<Rightarrow> string" where
  "uncompressedBlob fileData = ''blob '' @ showNat (length fileData) @ [NUL] @ fileData"

definition writeBlobObject :: "codec \<Rightarrow> string \<Rightarrow> repo \<Rightarrow> string \<times> repo" where
  "writeBlobObject c fileData s =
     (let hashHex = createShaHash c (uncompressedBlob fileData)
      in writeObject hashHex (deflate c (uncompressedBlob fileData)) s)"

section \<open>Tree builder\<close>

text \<open>
  \<open>getIgnoredPatterns\<close> reads \<open>.customIgnore\<close> in the working directory: its non-blank
  lines, or the two default patterns when there is no such entry. When the entry is a
  directory the read throws; a special file there is taken to fail as well.
\<close>

definition getIgnoredPatterns :: "(string \<times> node) list \<Rightarrow> error + string list" where
  "getIgnoredPatterns wt =
     (case map_of wt ''.customIgnore'' of
        None \<Rightarrow> Inr [''.customGit'', ''.git'']
      | Some (File executable content) \<Rightarrow>
          Inr (filter (\<lambda>line. trim line \<noteq> []) (splitOn LF content))
      | Some (Directory entries) \<Rightarrow> Inl EISDIR
      | Some Special \<Rightarrow> Inl EISDIR)"

definition shouldIgnore :: "string list \<Rightarrow> string \<Rightarrow> bool" where
  "shouldIgnore patterns relativePath =
     list_ex (\<lambda>pattern. relativePath = pattern \<or> prefix (pattern @ ''/'') relativePath) patterns"

text \<open>The path of an entry relative to the working directory (\<open>[]\<close> is the root).\<close>

definition joinPath :: "string \<Rightarrow> string \<Rightarrow> string" where
  "joinPath directory file = (if directory = [] then file else directory @ ''/'' @ file)"

definition treeObjectOf :: "string \<Rightarrow> string" where
  "treeObjectOf treeEntries = ''tree '' @ showNat (jsLength treeEntries) @ [NUL] @ treeEntries"

text \<open>
  \<open>writeTreeObject\<close> with the loop over the directory's entries as \<open>treeEntriesLoop\<close>,
  which threads the accumulated \<open>treeEntries\<close> string and the repository. Blobs are written
  by \<open>writeBlobObject\<close>, trees by \<open>stageTreeObject\<close>.
\<close>

fun writeTreeObject ::
  "codec \<Rightarrow> string list \<Rightarrow> string \<Rightarrow> (string \<times> node) list \<Rightarrow> repo \<Rightarrow> string \<times> repo"
and treeEntriesLoop ::
  "codec \<Rightarrow> string list \<Rightarrow> string \<Rightarrow> (string \<times> node) list \<Rightarrow> string \<Rightarrow> repo \<Rightarrow> string \<times> repo"
where
  "writeTreeObject c patterns directory files s =
     (case treeEntriesLoop c patterns directory files [] s of
        (treeEntries, s1) \<Rightarrow>
          stageTreeObject (createShaHash c (treeObjectOf treeEntries))
            (deflate c (treeObjectOf treeEntries)) s1)"
| "treeEntriesLoop c patterns directory [] treeEntries s = (treeEntries, s)"
| "treeEntriesLoop c patterns directory ((file, nd) # rest) treeEntries s =
     (if shouldIgnore patterns (joinPath directory file)
      then treeEntriesLoop c patterns directory rest treeEntries s
      else (case nd of
              Directory sub \<Rightarrow>
                (case writeTreeObject c patterns (joinPath directory file) sub s of
                   (treeHash, s1) \<Rightarrow>
                     treeEntriesLoop c patterns directory rest
                       (treeEntries @ getGitMode True False @ [SP] @ file @ [NUL] @ treeHash) s1)
            | File executable fileData \<Rightarrow>
                (case writeBlobObject c fileData s of
                   (fileHash, s1) \<Rightarrow>
                     treeEntriesLoop c patterns directory rest
                       (treeEntries @ getGitMode False executable @ [SP] @ file @ [NUL] @ fileHash) s1)
            | Special \<Rightarrow> treeEntriesLoop c patterns directory rest treeEntries s))"

text \<open>
  \<open>writeTreeObject(process.cwd())\<close>. Every entry is first put to \<open>shouldIgnore\<close>, so a
  failing read of the patterns rejects the build before anything is written. The listing of
  the working directory also holds \<open>.customGit\<close>; the model covers the repositories whose
  patterns ignore it (the default patterns and the file that \<open>init\<close> writes do) and marks
  the others with \<open>RepoDirNotIgnored\<close>.
\<close>

definition writeWorkingTree :: "codec \<Rightarrow> repo \<Rightarrow> (error + string) \<times> repo" where
  "writeWorkingTree c s =
     (case getIgnoredPatterns (worktree s) of
        Inl e \<Rightarrow> (Inl e, s)
      | Inr patterns \<Rightarrow>
          if \<not> shouldIgnore patterns ''.customGit'' then (Inl RepoDirNotIgnored, s)
          else (case writeTreeObject c patterns [] (worktree s) s of
                  (treeHash, s1) \<Rightarrow> (Inr treeHash, s1)))"

text \<open>
  \<open>readTreeObject\<close> logs one name for each piece between NUL bytes, the first and the last
  piece dropped; the result is the list of logged names (\<open>None\<close> for \<open>undefined\<close>).
\<close>

definition readTreeObject ::
  "codec \<Rightarrow> string \<Rightarrow> bool \<Rightarrow> repo \<Rightarrow> error + string option list" where
  "readTreeObject c hash staged s =
     (case map_of (if staged then staging s else objects s) hash of
        None \<Rightarrow> Inl ENOENT
      | Some file \<Rightarrow>
          (case inflate c file of
             None \<Rightarrow> Inl InflateError
           | Some uncompressed \<Rightarrow>
               Inr (map (\<lambda>entry. nthOpt (splitOn SP entry) 1)
                      (butlast (tl (splitOn NUL uncompressed))))))"

definition stageWorkingTree ::
  "codec \<Rightarrow> repo \<Rightarrow> (error + string \<times> string option list) \<times> repo" where
  "stageWorkingTree c s =
     (case writeWorkingTree c s of
        (Inl e, s1) \<Rightarrow> (Inl e, s1)
      | (Inr treeHash, s1) \<Rightarrow>
          (case readTreeObject c treeHash True s1 of
             Inl e \<Rightarrow> (Inl e, s1)
           | Inr names \<Rightarrow> (Inr (treeHash, names), s1)))"

section \<open>Commit\<close>

text \<open>
  \<open>writeCommitObject\<close>: the text that is hashed and compressed starts with the tree line;
  the parent line is there when \<open>parentHash\<close> is truthy (neither \<open>null\<close> nor empty).
\<close>

definition commitObjectOf :: "string \<Rightarrow> string option \<Rightarrow> string \<Rightarrow> string" where
  "commitObjectOf treeHash parentHash commitMessage =
     ''tree '' @ treeHash @ [LF]
     @ (case parentHash of
          None \<Rightarrow> []
        | Some p \<Rightarrow> if p = [] then [] else ''parent '' @ p @ [LF])
     @ [LF] @ commitMessage @ [LF]"

definition writeCommitObject ::
  "codec \<Rightarrow> string \<Rightarrow> string option \<Rightarrow> string \<Rightarrow> repo \<Rightarrow> string \<times> repo" where
  "writeCommitObject c treeHash parentHash commitMessage s =
     (let commitObject = commitObjectOf treeHash parentHash commitMessage
      in writeObject (createShaHash c commitObject) (deflate c commitObject) s)"

text \<open>
  Moving the staged files over the objects directory: each file replaces the one of the
  same path, and leaves staging.
\<close>

function moveStaged :: "store \<Rightarrow> store \<Rightarrow> store" where
  "moveStaged [] dest = dest"
| "moveStaged ((hash, buffer) # rest) dest =
     moveStaged (AList.delete hash rest) (AList.update hash buffer dest)"
  by pat_completeness auto
termination
  by (relation "measure (\<lambda>(src, dest). length src)")
     (auto simp: le_imp_less_Suc length_delete_le)

text \<open>
  \<open>commitStagedFiles\<close>: refuse on an empty staging directory; move the staged files; read
  HEAD; build the tree of the working directory anew; remove and recreate the staging
  directory; write the commit object (the parent is HEAD's hash when HEAD holds one);
  write the commit hash to HEAD. The value of a success is the commit hash it logs.
\<close>

definition commitStagedFiles :: "codec \<Rightarrow> string \<Rightarrow> repo \<Rightarrow> (error + string) \<times> repo" where
  "commitStagedFiles c commitMessage s =
     (if staging s = [] then (Inl NothingToCommit, s)
      else
        (let s1 = s\<lparr>objects := moveStaged (staging s) (objects s), staging := []\<rparr>
         in case getHeadReference s1 of
              Inl e \<Rightarrow> (Inl e, s1)
            | Inr head \<Rightarrow>
                (case writeWorkingTree c s1 of
                   (Inl e, s2) \<Rightarrow> (Inl e, s2)
                 | (Inr treeHash, s2) \<Rightarrow>
                     (case writeCommitObject c treeHash
                             (case head of CommitRef hash \<Rightarrow> Some hash | BranchRef ref \<Rightarrow> None)
                             commitMessage (s2\<lparr>staging := []\<rparr>) of
                        (commitHash, s3) \<Rightarrow> (Inr commitHash, updateHeadToCommit commitHash s3)))))"

section \<open>Tree differ\<close>

datatype change = Added | Deleted | Modified

text \<open>
  \<open>parseTreeObject\<close>: the uncompressed text is split at NUL bytes, the first and the last
  piece are dropped, and each remaining piece is split at spaces: its second word is the
  key and its first word the value of a \<open>Map\<close> (a later \<open>set\<close> of a key replaces the value
  in place).
\<close>

definition parseTreeObject ::
  "codec \<Rightarrow> bool \<Rightarrow> repo \<Rightarrow> string \<Rightarrow> error + (string option \<times> string option) list" where
  "parseTreeObject c staged s hash =
     (case map_of (if staged then staging s else objects s) hash of
        None \<Rightarrow> Inl ENOENT
      | Some file \<Rightarrow>
          (case inflate c file of
             None \<Rightarrow> Inl InflateError
           | Some uncompressed \<Rightarrow>
               Inr (foldl (\<lambda>fileMap entry.
                             AList.update (nthOpt (splitOn SP entry) 1)
                               (nthOpt (splitOn SP entry) 0) fileMap)
                      [] (butlast (tl (splitOn NUL uncompressed))))))"

text \<open>A \<open>Set\<close> built from a sequence keeps the first occurrence of each element.\<close>

definition keepFirst :: "'a list \<Rightarrow> 'a list" where
  "keepFirst xs = rev (remdups (rev xs))"

definition compareMaps ::
  "(string option \<times> string option) list \<Rightarrow> (string option \<times> string option) list
     \<Rightarrow> (change \<times> string option) list" where
  "compareMaps tree1 tree2 =
     concat (map (\<lambda>file.
                    if map_of tree1 file = None then [(Added, file)]
                    else if map_of tree2 file = None then [(Deleted, file)]
                    else if map_of tree1 file \<noteq> map_of tree2 file then [(Modified, file)]
                    else [])
               (keepFirst (map fst tree1 @ map fst tree2)))"

definition compareTreeObjects ::
  "codec \<Rightarrow> string \<Rightarrow> string \<Rightarrow> bool \<Rightarrow> repo \<Rightarrow> error + (change \<times> string option) list" where
  "compareTreeObjects c hash1 hash2 staged s =
     (case parseTreeObject c staged s hash1 of
        Inl e \<Rightarrow> Inl e
      | Inr tree1 \<Rightarrow>
          (case parseTreeObject c staged s hash2 of
             Inl e \<Rightarrow> Inl e
           | Inr tree2 \<Rightarrow> Inr (compareMaps tree1 tree2)))"

section \<open>Initialisation\<close>


section \<open>The serialization contract, as the specification words it\<close>


definition encodeEntry :: "string \<times> string \<times> string \<Rightarrow> string" where
  "encodeEntry e = (case e of (mode, name, childHash) \<Rightarrow> mode @ [SP] @ name @ [NUL] @ childHash)"

fun commitBody :: "string \<Rightarrow> string option \<Rightarrow> string \<Rightarrow> string" where
  "commitBody treeHex None message = ''tree '' @ treeHex @ [LF] @ [LF] @ message @ [LF]"
| "commitBody treeHex (Some parentHex) message =
     ''tree '' @ treeHex @ [LF] @ ''parent '' @ parentHex @ [LF] @ [LF] @ message @ [LF]"

text \<open>
  The entries of a directory as the data model has them, \<open>(mode, name, child hash)\<close> in
  the order of traversal, and the hash of the tree made of them; ignored entries and
  special files have no entry.
\<close>

fun treeHashOf :: "codec \<Rightarrow> string list \<Rightarrow> string \<Rightarrow> (string \<times> node) list \<Rightarrow> string"
and treeEntryList ::
  "codec \<Rightarrow> string list \<Rightarrow> string \<Rightarrow> (string \<times> node) list \<Rightarrow> (string \<times> string \<times> string) list"
where
  "treeHashOf c patterns directory files =
     createShaHash c (treeObjectOf (concat (map encodeEntry (treeEntryList c patterns directory files))))"
| "treeEntryList c patterns directory [] = []"
| "treeEntryList c patterns directory ((name, nd) # rest) =
     (if shouldIgnore patterns (joinPath directory name)
      then treeEntryList c patterns directory rest
      else (case nd of
              Directory sub \<Rightarrow>
                (''40000'', name, treeHashOf c patterns (joinPath directory name) sub)
                  # treeEntryList c patterns directory rest
            | File executable fileData \<Rightarrow>
                (if executable then ''100755'' else ''100644'', name,
                 createShaHash c (uncompressedBlob fileData))
                  # treeEntryList c patterns directory rest
            | Special \<Rightarrow> treeEntryList c patterns directory rest))"

section \<open>What a build may change\<close>


definition isTreeObject :: "codec \<Rightarrow> string \<Rightarrow> string \<Rightarrow> bool" where
  "isTreeObject c hash buffer \<longleftrightarrow>
     (\<exists>treeEntries. hash = createShaHash c (treeObjectOf treeEntries)
        \<and> buffer = deflate c (treeObjectOf treeEntries))"






section \<open>A sample codec and sample repositories\<close>

text \<open>
  A small stand-in for the external codec, for running the model on concrete
  repositories: a 16-bit polynomial checksum as the digest, and the identity as
  compression.
\<close>

definition sampleDigest :: "string \<Rightarrow> 160 word" where
  "sampleDigest str = word_of_int (foldl (\<lambda>h ch. (h * 31 + of_char ch) mod 65521) 7 str)"

definition sampleCodec :: codec where
  "sampleCodec = \<lparr>sha1 = sampleDigest, deflate = (\<lambda>str. str), inflate = Some\<rparr>"

section \<open>Histories without a commit\<close>



text \<open>
  The sample hashes are written by their last four digits; \<open>pad\<close> puts the 36 zeros in
  front that the 16-bit sample digest leaves.
\<close>

definition pad :: "string \<Rightarrow> string" where
  "pad digits = replicate (40 - length digits) CHR ''0'' @ digits"

definition ignoreFile :: node where
  "ignoreFile = File False (''.customGit'' @ [LF] @ ''.git'' @ [LF])"

definition worktreeX :: "(string \<times> node) list" where
  "worktreeX = [(''a'', File False ''x''), (''.customIgnore'', ignoreFile)]"

definition worktreeY :: "(string \<times> node) list" where
  "worktreeY = [(''a'', File False ''y''), (''.customIgnore'', ignoreFile)]"

definition blobIgnore :: string where
  "blobIgnore = ''blob 16'' @ [NUL] @ ''.customGit'' @ [LF] @ ''.git'' @ [LF]"

definition treeX :: string where
  "treeX = ''tree 110'' @ [NUL] @ ''100644 a'' @ [NUL] @ pad ''e390''
             @ ''100644 .customIgnore'' @ [NUL] @ pad ''5dbb''"

definition treeY :: string where
  "treeY = ''tree 110'' @ [NUL] @ ''100644 a'' @ [NUL] @ pad ''e391''
             @ ''100644 .customIgnore'' @ [NUL] @ pad ''5dbb''"

definition initialObjects :: store where
  "initialObjects =
     [(pad ''5926'', ''tree 0'' @ [NUL]),
      (pad ''d9fd'', ''tree '' @ pad ''5926'' @ [LF, LF] @ ''Initial commit'' @ [LF])]"

definition mainRef :: "string \<times> string" where
  "mainRef = (''refs/heads/main'', pad ''d9fd'' @ [LF])"

text \<open>The repository as \<open>init\<close> leaves it in a directory that holds the one file \<open>a\<close>.\<close>

definition repoFresh :: repo where
  "repoFresh =
     \<lparr>worktree = worktreeX,
      metaFiles = [mainRef, (''HEAD'', ''ref: refs/heads/main'' @ [LF])],
      objects = initialObjects,
      staging = []\<rparr>"

text \<open>After \<open>stage\<close>.\<close>

definition repoStaged :: repo where
  "repoStaged =
     \<lparr>worktree = worktreeX,
      metaFiles = [mainRef, (''HEAD'', ''ref: refs/heads/main'' @ [LF])],
      objects = initialObjects @ [(pad ''e390'', ''blob 1'' @ [NUL] @ ''x''), (pad ''5dbb'', blobIgnore)],
      staging = [(pad ''b5aa'', treeX)]\<rparr>"

text \<open>After \<open>stage\<close> and \<open>commit first\<close>.\<close>

definition repoCommitted :: repo where
  "repoCommitted =
     \<lparr>worktree = worktreeX,
      metaFiles = [mainRef, (''HEAD'', pad ''42e0'' @ [LF])],
      objects = initialObjects
        @ [(pad ''e390'', ''blob 1'' @ [NUL] @ ''x''), (pad ''5dbb'', blobIgnore),
           (pad ''b5aa'', treeX),
           (pad ''42e0'', ''tree '' @ pad ''b5aa'' @ [LF, LF] @ ''first'' @ [LF])],
      staging = []\<rparr>"

text \<open>After the file \<open>a\<close> has then been rewritten, and \<open>stage\<close> and \<open>commit second\<close> run.\<close>

definition repoRestaged :: repo where
  "repoRestaged =
     \<lparr>worktree = worktreeY,
      metaFiles = [mainRef, (''HEAD'', pad ''42e0'' @ [LF])],
      objects = initialObjects
        @ [(pad ''e390'', ''blob 1'' @ [NUL] @ ''x''), (pad ''5dbb'', blobIgnore),
           (pad ''b5aa'', treeX),
           (pad ''42e0'', ''tree '' @ pad ''b5aa'' @ [LF, LF] @ ''first'' @ [LF]),
           (pad ''e391'', ''blob 1'' @ [NUL] @ ''y'')],
      staging = [(pad ''fecb'', treeY)]\<rparr>"


text \<open>
  \<open>repoStaged\<close> after the file \<open>a\<close> has been rewritten, and that repository after a
  second \<open>stage\<close>, and after a \<open>commit first\<close> instead.
\<close>

definition repoStagedEdited :: repo where
  "repoStagedEdited = repoStaged\<lparr>worktree := worktreeY\<rparr>"

definition repoTwoTrees :: repo where
  "repoTwoTrees =
     \<lparr>worktree = worktreeY,
      metaFiles = [mainRef, (''HEAD'', ''ref: refs/heads/main'' @ [LF])],
      objects = initialObjects
        @ [(pad ''e390'', ''blob 1'' @ [NUL] @ ''x''), (pad ''5dbb'', blobIgnore),
           (pad ''e391'', ''blob 1'' @ [NUL] @ ''y'')],
      staging = [(pad ''b5aa'', treeX), (pad ''fecb'', treeY)]\<rparr>"

definition repoDangling :: repo where
  "repoDangling =
     \<lparr>worktree = worktreeY,
      metaFiles = [mainRef, (''HEAD'', pad ''0756'' @ [LF])],
      objects = initialObjects
        @ [(pad ''e390'', ''blob 1'' @ [NUL] @ ''x''), (pad ''5dbb'', blobIgnore),
           (pad ''b5aa'', treeX),
           (pad ''e391'', ''blob 1'' @ [NUL] @ ''y''),
           (pad ''0756'', ''tree '' @ pad ''fecb'' @ [LF, LF] @ ''first'' @ [LF])],
      staging = []\<rparr>"

section \<open>Facts about digests and text\<close>












section \<open>Facts about the store and the tree builder\<close>

lemma map_of_moveStaged: "map_of (moveStaged src dest) = map_of dest ++ map_of src"
proof (induction src dest rule: moveStaged.induct)
  case (1 dest)
  show ?case by simp
next
  case (2 hash buffer rest dest)
  have "map_of (moveStaged ((hash, buffer) # rest) dest) k
          = (map_of dest ++ map_of ((hash, buffer) # rest)) k" for k
    by (cases "k = hash") (simp_all add: 2 map_add_def update_conv' delete_conv')
  then show ?case by blast
qed









lemma tree_pure:
  shows "fst (writeTreeObject c patterns directory files s) = treeHashOf c patterns directory files"
    and "fst (treeEntriesLoop c patterns directory files treeEntries s)
           = treeEntries @ concat (map encodeEntry (treeEntryList c patterns directory files))"
proof (induction c patterns directory files s and c patterns directory files treeEntries s
       rule: writeTreeObject_treeEntriesLoop.induct)
  case (1 c patterns directory files s)
  obtain te s1 where loop: "treeEntriesLoop c patterns directory files [] s = (te, s1)"
    by (cases "treeEntriesLoop c patterns directory files [] s")
  have "te = concat (map encodeEntry (treeEntryList c patterns directory files))"
    using 1 loop by simp
  then show ?case
    by (simp add: loop stageTreeObject_def)
next
  case (2 c patterns directory treeEntries s)
  show ?case by simp
next
  case (3 c patterns directory fname nd rest treeEntries s)
  show ?case
  proof (cases "shouldIgnore patterns (joinPath directory fname)")
    case True
    then show ?thesis using 3(1) by simp
  next
    case False
    show ?thesis
    proof (cases nd)
      case (File executable fileData)
      obtain fh s1 where w: "writeBlobObject c fileData s = (fh, s1)"
        by (cases "writeBlobObject c fileData s")
      have fh: "fh = createShaHash c (uncompressedBlob fileData)"
        using w by (auto simp: writeBlobObject_def writeObject_def Let_def)
      show ?thesis
        using False File w 3(2) [OF False File w [symmetric]]
        by (simp add: fh encodeEntry_def getGitMode_def)
    next
      case (Directory sub)
      obtain th s1 where w: "writeTreeObject c patterns (joinPath directory fname) sub s = (th, s1)"
        by (cases "writeTreeObject c patterns (joinPath directory fname) sub s")
      have th: "th = treeHashOf c patterns (joinPath directory fname) sub"
        using 3(3) [OF False Directory] w by simp
      show ?thesis
        using False Directory w 3(4) [OF False Directory w [symmetric]]
        by (simp del: writeTreeObject.simps treeHashOf.simps add: th encodeEntry_def getGitMode_def)
    next
      case Special
      then show ?thesis using False 3(5) by simp
    qed
  qed
qed

lemma writeTreeObject_staged:
  "map_of (staging (snd (writeTreeObject c patterns directory files s)))
     (treeHashOf c patterns directory files)
   = Some (deflate c (treeObjectOf (concat (map encodeEntry (treeEntryList c patterns directory files)))))"
proof -
  obtain te s1 where loop: "treeEntriesLoop c patterns directory files [] s = (te, s1)"
    by (cases "treeEntriesLoop c patterns directory files [] s")
  have te: "te = concat (map encodeEntry (treeEntryList c patterns directory files))"
    using tree_pure(2) [of c patterns directory files "[]" s] loop by simp
  show ?thesis
    by (simp add: loop te stageTreeObject_def update_conv')
qed


lemma writeWorkingTree_staged:
  assumes "writeWorkingTree c s = (Inr h, s')"
  shows "\<exists>buffer. map_of (staging s') h = Some buffer \<and> isTreeObject c h buffer"
proof -
  from assms obtain patterns where
    w: "writeTreeObject c patterns [] (worktree s) s = (h, s')"
    by (auto simp: writeWorkingTree_def simp del: writeTreeObject.simps
             split: sum.splits if_splits prod.splits)
  have h: "h = treeHashOf c patterns [] (worktree s)"
    using tree_pure(1) [of c patterns "[]" "worktree s" s] w by simp
  have "map_of (staging s') h = Some (deflate c (treeObjectOf
          (concat (map encodeEntry (treeEntryList c patterns [] (worktree s))))))"
    using writeTreeObject_staged [of c patterns "[]" "worktree s" s] w h by simp
  then show ?thesis
    unfolding isTreeObject_def h by auto
qed



















section \<open>The sample repositories are what the operations produce\<close>




lemma restage_sample:
  "stageWorkingTree sampleCodec (repoCommitted\<lparr>worktree := worktreeY\<rparr>)
     = (Inr (pad ''fecb'', [Some ''a'', Some ''.customIgnore'']), repoRestaged)"
  by code_simp


lemma stage_edited_sample:
  "stageWorkingTree sampleCodec repoStagedEdited
     = (Inr (pad ''fecb'', [Some ''a'', Some ''.customIgnore'']), repoTwoTrees)"
  by code_simp

section \<open>The claims\<close>

subsection \<open>C1: where stage writes\<close>




subsection \<open>C2: what commit does to the references\<close>




subsection \<open>C3: the parent of a commit\<close>



subsection \<open>C4: the tree differ\<close>

text \<open>
  C4 is what the differ's own comments describe and fails on the code. Staging, rewriting
  the file \<open>a\<close> and staging again leaves two trees in staging that differ in the child
  hash of \<open>a\<close> and in nothing else; the differ reports \<open>.customIgnore\<close>, whose mode and
  child hash are identical, as modified and omits \<open>a\<close>.
\<close>

theorem compareTreeObjects_misreports:
  "stageWorkingTree sampleCodec repoStagedEdited
     = (Inr (pad ''fecb'', [Some ''a'', Some ''.customIgnore'']), repoTwoTrees)
   \<and> map_of (staging repoTwoTrees) (pad ''b5aa'') = Some (deflate sampleCodec treeX)
   \<and> map_of (staging repoTwoTrees) (pad ''fecb'') = Some (deflate sampleCodec treeY)
   \<and> treeX = treeObjectOf (concat (map encodeEntry
        [(''100644'', ''a'', pad ''e390''), (''100644'', ''.customIgnore'', pad ''5dbb'')]))
   \<and> treeY = treeObjectOf (concat (map encodeEntry
        [(''100644'', ''a'', pad ''e391''), (''100644'', ''.customIgnore'', pad ''5dbb'')]))
   \<and> compareTreeObjects sampleCodec (pad ''b5aa'') (pad ''fecb'') True repoTwoTrees
       = Inr [(Modified, Some ''.customIgnore'')]"
  by (intro conjI) (rule stage_edited_sample | code_simp)+

subsection \<open>C5: the serialization contract\<close>




subsection \<open>C6: content addressing\<close>

text \<open>
  C6 as stated fails. The working directory of the sample repository listed in the
  opposite order has the same entries, with the same modes and child hashes, and another
  tree hash.
\<close>

theorem tree_hash_follows_listing_order:
  "set (treeEntryList sampleCodec [''.customGit'', ''.git''] [] (rev worktreeX))
     = set (treeEntryList sampleCodec [''.customGit'', ''.git''] [] worktreeX)
   \<and> fst (writeTreeObject sampleCodec [''.customGit'', ''.git''] [] worktreeX repoFresh) = pad ''b5aa''
   \<and> fst (writeTreeObject sampleCodec [''.customGit'', ''.git''] [] (rev worktreeX) repoFresh) = pad ''ae56''
   \<and> pad ''b5aa'' \<noteq> pad ''ae56''"
  by code_simp

text \<open>
  C6, amended. For all byte-identical file contents the Blob hash is identical, and for
  all directories whose entries have the same modes, names and child hashes in the same
  order of traversal the Tree hash is identical; the Tree hash depends on that order.
\<close>

theorem content_addressing:
  "fst (writeBlobObject c fileData s1) = fst (writeBlobObject c fileData s2)
   \<and> (treeEntryList c patterns1 directory1 files1 = treeEntryList c patterns2 directory2 files2
      \<longrightarrow> fst (writeTreeObject c patterns1 directory1 files1 s1)
          = fst (writeTreeObject c patterns2 directory2 files2 s2))"
proof -
  have "fst (writeBlobObject c fileData s1) = fst (writeBlobObject c fileData s2)"
    by (simp add: writeBlobObject_def writeObject_def Let_def)
  moreover have "fst (writeTreeObject c patterns1 directory1 files1 s1)
          = fst (writeTreeObject c patterns2 directory2 files2 s2)"
    if "treeEntryList c patterns1 directory1 files1 = treeEntryList c patterns2 directory2 files2"
    using that tree_pure(1) [of c patterns1 directory1 files1 s1]
      tree_pure(1) [of c patterns2 directory2 files2 s2] by simp
  ultimately show ?thesis by blast
qed

theorem content_addressing_witness:
  "treeEntryList sampleCodec [''.customGit'', ''.git''] [] worktreeX
     = treeEntryList sampleCodec [''.customGit''] ''sub'' (worktreeX @ [(''socket'', Special)])
   \<and> fst (writeTreeObject sampleCodec [''.customGit'', ''.git''] [] worktreeX repoFresh)
       = fst (writeTreeObject sampleCodec [''.customGit''] ''sub''
                (worktreeX @ [(''socket'', Special)]) repoStaged)"
proof -
  have same: "treeEntryList sampleCodec [''.customGit'', ''.git''] [] worktreeX
     = treeEntryList sampleCodec [''.customGit''] ''sub'' (worktreeX @ [(''socket'', Special)])"
    by code_simp
  show ?thesis
    using content_addressing [where c = sampleCodec and ?patterns1.0 = "[''.customGit'', ''.git'']"
        and ?directory1.0 = "[]" and ?files1.0 = worktreeX and ?patterns2.0 = "[''.customGit'']"
        and ?directory2.0 = "''sub''" and ?files2.0 = "worktreeX @ [(''socket'', Special)]"
        and ?s1.0 = repoFresh and ?s2.0 = repoStaged] same
    by blast
qed

subsection \<open>C7: commit on empty staging\<close>

text \<open>
  C7. When the staging partition is empty, commit fails with \<open>NothingToCommit\<close> and
  leaves the repository as it was: no object, no HEAD or branch file and no staged entry
  is written.
\<close>

theorem commit_empty_staging:
  "staging s = [] \<Longrightarrow> commitStagedFiles c commitMessage s = (Inl NothingToCommit, s)"
  by (simp add: commitStagedFiles_def)

theorem commit_empty_staging_witness:
  "staging repoFresh = []
   \<and> commitStagedFiles sampleCodec ''first'' repoFresh = (Inl NothingToCommit, repoFresh)"
proof -
  have empty: "staging repoFresh = []" by (simp add: repoFresh_def)
  show ?thesis
    using commit_empty_staging [OF empty, of sampleCodec "''first''"] empty by simp
qed

subsection \<open>C8: createBranch\<close>



subsection \<open>C9: checkoutBranch\<close>



subsection \<open>C10: the tree of a commit\<close>

text \<open>
  C10 is what the documentation of the tree builder promises (a staged tree is later
  moved to the objects directory by commit) and fails on the code. When the file \<open>a\<close> of
  the staged sample repository is rewritten before the commit, the commit object names
  the tree of the new working directory, which was written to staging after the staged
  files had been moved and was removed with the staging directory: it is in neither
  partition.
\<close>

theorem commit_names_missing_tree:
  "commitStagedFiles sampleCodec ''first'' repoStagedEdited = (Inr (pad ''0756''), repoDangling)
   \<and> map_of (objects repoDangling) (pad ''0756'')
       = Some (deflate sampleCodec (commitBody (pad ''fecb'') None ''first''))
   \<and> treeHashOf sampleCodec [''.customGit'', ''.git''] [] (worktree repoStagedEdited) = pad ''fecb''
   \<and> map_of (objects repoDangling) (pad ''fecb'') = None
   \<and> map_of (staging repoDangling) (pad ''fecb'') = None"
  by code_simp

end
